theory Spec2Isabelle
  imports Complex_Main "HOL-Library.Word"
begin

section \<open>Data model of the batch status monitor\<close>

text \<open>
  The monitor is \<^verbatim>\<open>mainBatchStatus\<close> together with the interactive model
  \<^verbatim>\<open>batchJobMetricsUI\<close> (its \<^verbatim>\<open>Update\<close> and \<^verbatim>\<open>View\<close> methods).
  The metric types come from the admin library; the fields below are the ones the
  monitor reads. Go's \<^verbatim>\<open>int64\<close> counters are 64-bit words read through
  \<open>sint\<close>, so that multiplication wraps as it does in Go. A \<^verbatim>\<open>time.Time\<close> is its
  number of nanoseconds on a common time line.
\<close>

type_synonym int64 = "64 word"

record ReplicateInfo =
  Object :: string
  Objects :: int64
  ObjectsFailed :: int64
  BytesTransferred :: int64

record JobMetric =
  JobType :: string
  StartTime :: int
  LastUpdate :: int
  Complete :: bool
  Failed :: bool
  Replicate :: ReplicateInfo

record BatchJobMetrics =
  Jobs :: "string \<rightharpoonup> JobMetric"

text \<open>
  \<^verbatim>\<open>metrics.Aggregated.BatchJobs\<close> is a pointer: \<open>None\<close> is Go's \<^verbatim>\<open>nil\<close>.
\<close>

record RealtimeMetrics =
  Aggregated_BatchJobs :: "BatchJobMetrics option"

definition zeroReplicateInfo :: ReplicateInfo where
  "zeroReplicateInfo =
     \<lparr>Object = [], Objects = 0, ObjectsFailed = 0, BytesTransferred = 0\<rparr>"

definition zeroJobMetric :: JobMetric where
  "zeroJobMetric =
     \<lparr>JobType = [], StartTime = 0, LastUpdate = 0, Complete = False, Failed = False,
      Replicate = zeroReplicateInfo\<rparr>"

text \<open>
  The two-result map read \<^verbatim>\<open>job, ok := metrics.Aggregated.BatchJobs.Jobs[jobID]\<close>
  behind the \<^verbatim>\<open>nil\<close> test of the aggregation, as both the structured callback and
  \<^verbatim>\<open>Update\<close> perform it: \<open>None\<close> when the aggregation is missing or the job id is
  not a key of the mapping.
\<close>

definition findJob :: "string \<Rightarrow> RealtimeMetrics \<Rightarrow> JobMetric option" where
  "findJob jobID metrics =
     (case Aggregated_BatchJobs metrics of
        None \<Rightarrow> None
      | Some bj \<Rightarrow> Jobs bj jobID)"

definition carriesJob :: "string \<Rightarrow> RealtimeMetrics \<Rightarrow> bool" where
  "carriesJob jid t = (case findJob jid t of None \<Rightarrow> False | Some job \<Rightarrow> True)"

section \<open>The spinner of the interactive display\<close>

datatype style = Foreground string

text \<open>
  Modelled from the spec: \<^verbatim>\<open>spinner.Model\<close> belongs to the terminal UI library and is
  not under src/. The spec gives the spinner an animation phase, a counter that a tick
  advances and that wraps; the model keeps the fields the monitor sets
  (\<^verbatim>\<open>Spinner\<close>, here its frames, and \<^verbatim>\<open>Style\<close>) and the phase.
\<close>

record spinner_Model =
  Frames :: "string list"
  Style :: style
  frame :: nat

datatype cmd = Quit | SpinnerTick

text \<open>
  Modelled from the spec: a tick advances the phase, wrapping after the last frame, and
  schedules the next tick.
\<close>

definition spinner_Update :: "spinner_Model \<Rightarrow> spinner_Model \<times> cmd option" where
  "spinner_Update s =
     (let f = frame s + 1;
          f' = (if f \<ge> length (Frames s) then 0 else f)
      in (s\<lparr>frame := f'\<rparr>, Some SpinnerTick))"

section \<open>The interactive state machine\<close>

record batchJobMetricsUI =
  current :: JobMetric
  spinner :: spinner_Model
  quitting :: bool
  jobID :: string

text \<open>
  The messages of the display loop: a key press (carrying \<^verbatim>\<open>msg.String()\<close>), a
  metrics envelope sent by the feed callback, a spinner tick, and any other message of
  the UI library, which \<^verbatim>\<open>Update\<close> sends to its \<^verbatim>\<open>default\<close> branch.
\<close>

datatype msg =
    KeyMsg string
  | MetricsMsg RealtimeMetrics
  | SpinnerTickMsg
  | OtherMsg string

text \<open>
  The frames of \<^verbatim>\<open>spinner.Points\<close>: three positions with a dot moving through
  them, written here in ASCII.
\<close>

definition pointsFrames :: "string list" where
  "pointsFrames = [''...'', ''*..'', ''.*.'', ''..*'']"

definition initBatchJobMetricsUI :: "string \<Rightarrow> batchJobMetricsUI" where
  "initBatchJobMetricsUI j =
     \<lparr>current = zeroJobMetric,
      spinner = \<lparr>Frames = pointsFrames, Style = Foreground ''205'', frame = 0\<rparr>,
      quitting = False,
      jobID = j\<rparr>"

text \<open>
  \<^verbatim>\<open>Update\<close> mutates the receiver and returns it with a command; here it returns the
  new state, and \<open>None\<close> is the \<^verbatim>\<open>nil\<close> command.
\<close>

definition Update :: "batchJobMetricsUI \<Rightarrow> msg \<Rightarrow> batchJobMetricsUI \<times> cmd option" where
  "Update m message =
     (case message of
        KeyMsg k \<Rightarrow>
          (if k = ''ctrl+c'' then (m\<lparr>quitting := True\<rparr>, Some Quit) else (m, None))
      | MetricsMsg metrics \<Rightarrow>
          (case Aggregated_BatchJobs metrics of
             None \<Rightarrow> (m\<lparr>quitting := True\<rparr>, Some Quit)
           | Some bj \<Rightarrow>
               (case Jobs bj (jobID m) of
                  None \<Rightarrow> (m\<lparr>quitting := True\<rparr>, Some Quit)
                | Some job \<Rightarrow>
                    (let m' = m\<lparr>current := job\<rparr>
                     in if Complete job \<or> Failed job
                        then (m'\<lparr>quitting := True\<rparr>, Some Quit)
                        else (m', None))))
      | SpinnerTickMsg \<Rightarrow>
          (let (s, c) = spinner_Update (spinner m) in (m\<lparr>spinner := s\<rparr>, c))
      | OtherMsg x \<Rightarrow> (m, None))"

text \<open>The display loop hands the messages to \<^verbatim>\<open>Update\<close> one at a time, in order.\<close>

definition runUI :: "batchJobMetricsUI \<Rightarrow> msg list \<Rightarrow> batchJobMetricsUI" where
  "runUI m msgs = foldl (\<lambda>st x. fst (Update st x)) m msgs"

section \<open>Rendering\<close>

text \<open>
  \<^verbatim>\<open>View\<close> formats through libraries and package-level values that are not under
  src/: the style renderer, the white style, the two glyph cells, the table writer as
  \<^verbatim>\<open>View\<close> configures it, the byte-size and duration formatters and the
  \<^verbatim>\<open>%.2f\<close> verb. They are parameters of the model, collected in one record.
\<close>

record env =
  render :: "style \<Rightarrow> string \<Rightarrow> string"
  whiteStyle :: style
  tickCell :: string
  crossTickCell :: string
  tableRender :: "string list list \<Rightarrow> string"
  IBytes :: "nat \<Rightarrow> string"
  sprintf_2f :: "rat \<Rightarrow> string"
  durationString :: "int \<Rightarrow> string"

text \<open>
  Modelled from the spec: the spinner's own view is the current frame in the spinner's
  style.
\<close>

definition spinner_View :: "env \<Rightarrow> spinner_Model \<Rightarrow> string" where
  "spinner_View e s =
     (if frame s \<ge> length (Frames s) then ''(error)''
      else render e (Style s) (Frames s ! frame s))"

text \<open>\<^verbatim>\<open>fmt.Sprint\<close> of an \<^verbatim>\<open>int64\<close>: its decimal digits, with a sign when negative.\<close>

fun showNat :: "nat \<Rightarrow> string" where
  "showNat n =
     (if n < 10 then [''0123456789'' ! n]
      else showNat (n div 10) @ [''0123456789'' ! (n mod 10)])"

declare showNat.simps [simp del]

definition sprintInt64 :: "int64 \<Rightarrow> string" where
  "sprintInt64 w =
     (let i = sint w in if i < 0 then ''-'' @ showNat (nat (- i)) else showNat (nat i))"

definition newline :: string where
  "newline = [CHR 0x0A]"

definition BatchJobReplicate :: string where
  "BatchJobReplicate = ''replicate''"

text \<open>\<^verbatim>\<open>int64(time.Second)\<close>: a second in nanoseconds.\<close>

definition second :: int64 where
  "second = 1000000000"

definition maxDuration :: int where
  "maxDuration = 2 ^ 63 - 1"

definition minDuration :: int where
  "minDuration = - (2 ^ 63)"

text \<open>
  \<^verbatim>\<open>t.Sub(u)\<close>: the difference as a \<^verbatim>\<open>time.Duration\<close>, an \<^verbatim>\<open>int64\<close> of
  nanoseconds, held at the largest or smallest duration when it does not fit.
\<close>

definition time_Sub :: "int \<Rightarrow> int \<Rightarrow> int" where
  "time_Sub t u =
     (let d = t - u
      in if d > maxDuration then maxDuration
         else if d < minDuration then minDuration
         else d)"

text \<open>
  A \<^verbatim>\<open>float64\<close> is modelled by the rational it stands for: the conversions and the
  division below are exact, where Go rounds to 53 bits. The two agree whenever the
  operands and the quotient are representable. \<^verbatim>\<open>uint64(f)\<close> drops the fraction of
  a value in range; outside the range Go leaves the result to the platform, and nothing
  here evaluates it there.
\<close>

definition float64_of_int64 :: "int64 \<Rightarrow> rat" where
  "float64_of_int64 w = of_int (sint w)"

definition float64_of_Duration :: "int \<Rightarrow> rat" where
  "float64_of_Duration d = of_int d"

definition uint64_of_float64 :: "rat \<Rightarrow> nat" where
  "uint64_of_float64 q = nat \<lfloor>q\<rfloor>"

definition addLine :: "env \<Rightarrow> string \<Rightarrow> string \<Rightarrow> string list list \<Rightarrow> string list list" where
  "addLine e prefix v data = data @ [[prefix, render e (whiteStyle e) v]]"

text \<open>The part of \<^verbatim>\<open>View\<close> before the first line break: the glyph of the header.\<close>

definition headerLine :: "env \<Rightarrow> batchJobMetricsUI \<Rightarrow> string" where
  "headerLine e m =
     (if \<not> quitting m then spinner_View e (spinner m)
      else if Complete (current m)
        then render e (Style (spinner m)) (tickCell e @ tickCell e @ tickCell e)
      else if Failed (current m)
        then render e (Style (spinner m)) (crossTickCell e @ crossTickCell e @ crossTickCell e)
      else [])"

definition bytesTransferredPerSec :: "JobMetric \<Rightarrow> rat" where
  "bytesTransferredPerSec j =
     float64_of_int64 (second * BytesTransferred (Replicate j))
       / float64_of_Duration (time_Sub (LastUpdate j) (StartTime j))"

definition objectsPerSec :: "JobMetric \<Rightarrow> rat" where
  "objectsPerSec j =
     float64_of_int64 (second * Objects (Replicate j))
       / float64_of_Duration (time_Sub (LastUpdate j) (StartTime j))"

text \<open>
  The rows \<^verbatim>\<open>View\<close> collects in \<^verbatim>\<open>data\<close>, in the order of the calls:
  first the rows of the replication case of the switch on the job type, then the switch.
\<close>

definition replicateRows :: "env \<Rightarrow> JobMetric \<Rightarrow> string list list" where
  "replicateRows e j =
     (let accElapsedTime = time_Sub (LastUpdate j) (StartTime j);
          r = Replicate j;
          d1 = addLine e ''JobType: '' (JobType j) [];
          d2 = addLine e ''Objects: '' (sprintInt64 (Objects r)) d1;
          d3 = addLine e ''Versions: '' (sprintInt64 (Objects r)) d2;
          d4 = addLine e ''FailedObjects: '' (sprintInt64 (ObjectsFailed r)) d3;
          d5 = (if accElapsedTime > 0 then
                  addLine e ''IOPs: '' (sprintf_2f e (objectsPerSec j) @ '' objs/s'')
                    (addLine e ''Throughput: ''
                       (IBytes e (uint64_of_float64 (bytesTransferredPerSec j)) @ ''/s'')
                       d4)
                else d4);
          d6 = addLine e ''Transferred: '' (IBytes e (unat (BytesTransferred r))) d5;
          d7 = addLine e ''Elapsed: '' (durationString e accElapsedTime) d6
      in addLine e ''CurrObjName: '' (Object r) d7)"

definition bodyRows :: "env \<Rightarrow> batchJobMetricsUI \<Rightarrow> string list list" where
  "bodyRows e m =
     (if JobType (current m) = BatchJobReplicate then replicateRows e (current m) else [])"

text \<open>
  What \<^verbatim>\<open>View\<close> writes after the header glyph: the line break, the rendered table,
  and one more line break once quitting is set.
\<close>

definition viewTail :: "env \<Rightarrow> batchJobMetricsUI \<Rightarrow> string" where
  "viewTail e m =
     newline @ tableRender e (bodyRows e m) @ (if quitting m then newline else [])"

definition View :: "env \<Rightarrow> batchJobMetricsUI \<Rightarrow> string" where
  "View e m = headerLine e m @ viewTail e m"

text \<open>The messages on which \<^verbatim>\<open>Update\<close> assigns \<^verbatim>\<open>m.current\<close>.\<close>

definition replacesSnapshot :: "string \<Rightarrow> msg \<Rightarrow> bool" where
  "replacesSnapshot jid x = (case x of MetricsMsg t \<Rightarrow> carriesJob jid t | _ \<Rightarrow> False)"

text \<open>While the display is running, the snapshot it holds is not a terminal one.\<close>

definition running_inv :: "batchJobMetricsUI \<Rightarrow> bool" where
  "running_inv m = (quitting m \<or> (\<not> Complete (current m) \<and> \<not> Failed (current m)))"

text \<open>
  An environment to run the model on: styles that add nothing, ASCII glyph cells, a
  table of one line per row with the cells separated by a tab, and formatters that
  print the number they are given.
\<close>

definition plainTable :: "string list list \<Rightarrow> string" where
  "plainTable rows = concat (map (\<lambda>r. concat (map (\<lambda>c. c @ [CHR 0x09]) r) @ newline) rows)"

definition plainEnv :: env where
  "plainEnv =
     \<lparr>render = (\<lambda>st s. s),
      whiteStyle = Foreground ''#ffffff'',
      tickCell = ''+'',
      crossTickCell = ''x'',
      tableRender = plainTable,
      IBytes = (\<lambda>n. showNat n @ '' B''),
      sprintf_2f = (\<lambda>q. showNat (nat \<lfloor>q\<rfloor>)),
      durationString = (\<lambda>d. showNat (nat d) @ ''ns'')\<rparr>"

section \<open>The monitor's top level\<close>

text \<open>
  Errors as values. \<^verbatim>\<open>ErrorResponse\<close> is the admin library's error with its code,
  \<^verbatim>\<open>Canceled\<close> is \<^verbatim>\<open>context.Canceled\<close>, and \<^verbatim>\<open>Wrapped\<close> is an error that
  unwraps to another.
\<close>

datatype error =
    ErrorResponse string
  | Canceled
  | OtherError string
  | Wrapped string error

text \<open>
  Modelled from the spec: \<^verbatim>\<open>madmin.ToErrorResponse\<close> is not under src/. It gives an
  admin error response back as it is and an empty response, whose code is empty, for
  \<^verbatim>\<open>nil\<close> and for every other error.
\<close>

definition ToErrorResponse_Code :: "error option \<Rightarrow> string" where
  "ToErrorResponse_Code e = (case e of Some (ErrorResponse c) \<Rightarrow> c | _ \<Rightarrow> [])"

text \<open>\<^verbatim>\<open>errors.Is\<close>: the error or one it unwraps to is the target.\<close>

fun errors_Is :: "error \<Rightarrow> error \<Rightarrow> bool" where
  "errors_Is (Wrapped s inner) target = (Wrapped s inner = target \<or> errors_Is inner target)"
| "errors_Is e target = (e = target)"

text \<open>
  Modelled from the spec: \<^verbatim>\<open>fatalIf\<close> and \<^verbatim>\<open>probe.NewError\<close> are not under src/.
  A fatal error ends the monitor when the error is not \<^verbatim>\<open>nil\<close>; it carries the
  error, the trace arguments and the message. A \<^verbatim>\<open>nil\<close> error lets the flow go on.
\<close>

datatype fatal = Fatal error "string list" string

text \<open>
  Lines 91 to 99 of \<^verbatim>\<open>mainBatchStatus\<close>, from the result of
  \<^verbatim>\<open>DescribeBatchJob\<close>: either the monitor aborts, or it goes on to open the metrics
  subscription, having printed the notices listed.
\<close>

datatype flow = Aborted fatal | Subscribes "string list"

definition lookupJobStatus :: "bool \<Rightarrow> error option \<Rightarrow> flow" where
  "lookupJobStatus globalJSON e =
     (let nosuchJob = (ToErrorResponse_Code e = ''XMinioAdminNoSuchJob'');
          e' = (if nosuchJob then None else e);
          infos = (if nosuchJob \<and> \<not> globalJSON
                   then [''Unable to find an active job, attempting to list from previously run jobs'']
                   else [])
      in case e' of
           None \<Rightarrow> Subscribes infos
         | Some x \<Rightarrow> Aborted (Fatal x [] ''Unable to lookup job status''))"

text \<open>
  Lines 130 to 132: what the feed goroutine does with the error \<^verbatim>\<open>client.Metrics\<close>
  returned. \<open>None\<close>: nothing is raised.
\<close>

definition feedReturned :: "string list \<Rightarrow> error option \<Rightarrow> fatal option" where
  "feedReturned args e =
     (case e of
        None \<Rightarrow> None
      | Some x \<Rightarrow>
          (if \<not> errors_Is x Canceled
           then Some (Fatal x args ''Unable to get current batch status'')
           else None))"

text \<open>
  The delivery callback of lines 108 to 129. Its effects are on the cancellation of the
  shared context, on the records printed (\<^verbatim>\<open>printMsg\<close> of the whole envelope) and on
  the messages sent to the display loop.
\<close>

record feedState =
  cancelled :: bool
  printed :: "RealtimeMetrics list"
  sent :: "RealtimeMetrics list"

definition initFeedState :: feedState where
  "initFeedState = \<lparr>cancelled = False, printed = [], sent = []\<rparr>"

definition callback :: "bool \<Rightarrow> string \<Rightarrow> RealtimeMetrics \<Rightarrow> feedState \<Rightarrow> feedState" where
  "callback globalJSON jid metrics st =
     (if globalJSON then
        (case Aggregated_BatchJobs metrics of
           None \<Rightarrow> st\<lparr>cancelled := True\<rparr>
         | Some bj \<Rightarrow>
             (case Jobs bj jid of
                None \<Rightarrow> st\<lparr>cancelled := True\<rparr>
              | Some job \<Rightarrow>
                  (let st' = st\<lparr>printed := printed st @ [metrics]\<rparr>
                   in if Complete job \<or> Failed job then st'\<lparr>cancelled := True\<rparr> else st')))
      else st\<lparr>sent := sent st @ [metrics]\<rparr>)"

text \<open>
  Modelled from the spec: \<^verbatim>\<open>client.Metrics\<close> is not under src/. The feed invokes the
  delivery callback once per tick, in order, each invocation running to completion
  before the next, and it stops once the shared cancellation has been tripped.
\<close>

fun metricsFeed ::
  "(RealtimeMetrics \<Rightarrow> feedState \<Rightarrow> feedState) \<Rightarrow> RealtimeMetrics list \<Rightarrow> feedState \<Rightarrow> feedState"
where
  "metricsFeed out [] st = st"
| "metricsFeed out (t # ts) st =
     (if cancelled st then st else metricsFeed out ts (out t st))"

text \<open>
  The records the spec asks of the structured emitter, in its words: one record per
  tick, in tick order, until the tick on which complete or failed first becomes true,
  and none after; a tick without the aggregation or without the job ends the emission
  with no record.
\<close>

definition stillRunning :: "string \<Rightarrow> RealtimeMetrics \<Rightarrow> bool" where
  "stillRunning jid t =
     (case findJob jid t of None \<Rightarrow> False | Some job \<Rightarrow> \<not> Complete job \<and> \<not> Failed job)"

definition recordsExpected :: "string \<Rightarrow> RealtimeMetrics list \<Rightarrow> RealtimeMetrics list" where
  "recordsExpected jid ticks =
     (let delivered = takeWhile (carriesJob jid) ticks
      in takeWhile (stillRunning jid) delivered
           @ take 1 (dropWhile (stillRunning jid) delivered))"

section \<open>Sample inputs\<close>

definition sampleReplicate :: ReplicateInfo where
  "sampleReplicate =
     \<lparr>Object = ''photos/cat.png'', Objects = 7, ObjectsFailed = 2, BytesTransferred = 104857600\<rparr>"

text \<open>A replication job that has moved 100 MiB in ten seconds.\<close>

definition runningJob :: JobMetric where
  "runningJob =
     \<lparr>JobType = ''replicate'', StartTime = 5, LastUpdate = 10000000005, Complete = False,
      Failed = False, Replicate = sampleReplicate\<rparr>"

definition completeJob :: JobMetric where
  "completeJob = runningJob\<lparr>Complete := True\<rparr>"

definition failedJob :: JobMetric where
  "failedJob = runningJob\<lparr>Failed := True\<rparr>"

definition tickOf :: "string \<Rightarrow> JobMetric \<Rightarrow> RealtimeMetrics" where
  "tickOf jid j = \<lparr>Aggregated_BatchJobs = Some \<lparr>Jobs = [jid \<mapsto> j]\<rparr>\<rparr>"

definition tickNoAggregation :: RealtimeMetrics where
  "tickNoAggregation = \<lparr>Aggregated_BatchJobs = None\<rparr>"

text \<open>The display after the user has pressed ctrl+c, before any snapshot.\<close>

definition interrupted :: batchJobMetricsUI where
  "interrupted = fst (Update (initBatchJobMetricsUI ''job1'') (KeyMsg ''ctrl+c''))"

text \<open>The display after a first snapshot of the running job.\<close>

definition afterRunning :: batchJobMetricsUI where
  "afterRunning = runUI (initBatchJobMetricsUI ''job1'') [MetricsMsg (tickOf ''job1'' runningJob)]"

definition otherJob :: JobMetric where
  "otherJob = runningJob\<lparr>JobType := ''keyrotate''\<rparr>"

definition bigJob :: JobMetric where
  "bigJob =
     \<lparr>JobType = ''replicate'', StartTime = 0, LastUpdate = 100000000000, Complete = False,
      Failed = False,
      Replicate = \<lparr>Object = ''photos/cat.png'', Objects = 7, ObjectsFailed = 0,
                   BytesTransferred = 18446744074\<rparr>\<rparr>"

section \<open>Properties of the state machine\<close>

lemma runUI_Nil: "runUI m [] = m"
  by (simp add: runUI_def)

lemma runUI_Cons: "runUI m (x # xs) = runUI (fst (Update m x)) xs"
  by (simp add: runUI_def)

lemma findJob_tickOf: "findJob jid (tickOf jid j) = Some j"
  by (simp add: findJob_def tickOf_def)

lemma findJob_tickNoAggregation: "findJob jid tickNoAggregation = None"
  by (simp add: findJob_def tickNoAggregation_def)

lemma Update_Metrics_found:
  "findJob (jobID m) t = Some job \<Longrightarrow>
   Update m (MetricsMsg t) =
     (if Complete job \<or> Failed job
      then (m\<lparr>current := job, quitting := True\<rparr>, Some Quit)
      else (m\<lparr>current := job\<rparr>, None))"
  by (auto simp: Update_def findJob_def Let_def split: option.splits)

lemma Update_Metrics_absent:
  "findJob (jobID m) t = None \<Longrightarrow> Update m (MetricsMsg t) = (m\<lparr>quitting := True\<rparr>, Some Quit)"
  by (auto simp: Update_def findJob_def split: option.splits)

lemma Update_jobID: "jobID (fst (Update m x)) = jobID m"
  by (cases x)
    (auto simp: Update_def Let_def split: option.splits prod.splits)

lemma runUI_jobID: "jobID (runUI m xs) = jobID m"
  by (induction xs arbitrary: m) (simp_all add: runUI_Nil runUI_Cons Update_jobID)

lemma Update_keeps_quitting: "quitting m \<Longrightarrow> quitting (fst (Update m x))"
  by (cases x)
    (auto simp: Update_def Let_def split: option.splits prod.splits)

lemma quitting_id: "quitting m \<Longrightarrow> m\<lparr>quitting := True\<rparr> = m"
  by simp

lemma interrupted_eq: "interrupted = (initBatchJobMetricsUI ''job1'')\<lparr>quitting := True\<rparr>"
  by (simp add: interrupted_def Update_def)

lemma jobID_interrupted: "jobID interrupted = ''job1''"
  by (simp add: interrupted_eq initBatchJobMetricsUI_def)

lemma quitting_interrupted: "quitting interrupted"
  by (simp add: interrupted_eq)

text \<open>
  C3. The quitting flag is monotonic: whatever the message, a state in which quitting is
  true is taken by \<^verbatim>\<open>Update\<close> to a state in which quitting is true.
\<close>

theorem quitting_monotonic:
  "quitting m \<Longrightarrow> quitting (fst (Update m x))"
  by (cases x)
    (auto simp: Update_def Let_def split: option.splits prod.splits)

theorem quitting_monotonic_witness:
  "quitting (fst (Update interrupted (MetricsMsg tickNoAggregation)))"
  using quitting_monotonic [of interrupted "MetricsMsg tickNoAggregation"]
  by (simp add: quitting_interrupted)

text \<open>
  C10. A key message whose key is not ctrl+c, and a message of none of the three handled
  classes, leave the whole state as it was (quitting, the current snapshot, the spinner
  and the job id) and give the \<^verbatim>\<open>nil\<close> command, so no quit is issued.
\<close>

theorem Update_unhandled_unchanged:
  "(k \<noteq> ''ctrl+c'' \<longrightarrow> Update m (KeyMsg k) = (m, None)) \<and> Update m (OtherMsg x) = (m, None)"
  by (simp add: Update_def)

theorem Update_unhandled_unchanged_witness:
  "''q'' \<noteq> ''ctrl+c''
   \<and> Update (initBatchJobMetricsUI ''job1'') (KeyMsg ''q'') = (initBatchJobMetricsUI ''job1'', None)
   \<and> Update (initBatchJobMetricsUI ''job1'') (OtherMsg ''resize'') = (initBatchJobMetricsUI ''job1'', None)"
  using Update_unhandled_unchanged [of "''q''" "initBatchJobMetricsUI ''job1''" "''resize''"]
  by simp

lemma View_spinner_irrelevant:
  "quitting m \<Longrightarrow> Style s = Style (spinner m) \<Longrightarrow> View e (m\<lparr>spinner := s\<rparr>) = View e m"
  by (simp add: View_def viewTail_def headerLine_def bodyRows_def)

lemma Update_frozen_step:
  assumes q: "quitting m" and n: "\<not> replacesSnapshot (jobID m) x"
  shows "View e (fst (Update m x)) = View e m"
proof (cases x)
  case (KeyMsg k)
  with q show ?thesis by (simp add: Update_def quitting_id)
next
  case (MetricsMsg t)
  with n have "findJob (jobID m) t = None"
    by (simp add: replacesSnapshot_def carriesJob_def split: option.splits)
  with q MetricsMsg show ?thesis by (simp add: Update_Metrics_absent quitting_id)
next
  case SpinnerTickMsg
  have "Style (fst (spinner_Update (spinner m))) = Style (spinner m)"
    by (simp add: spinner_Update_def Let_def)
  with q SpinnerTickMsg show ?thesis
    by (simp add: Update_def split_beta Let_def View_spinner_irrelevant)
next
  case (OtherMsg s)
  then show ?thesis by (simp add: Update_def)
qed

lemma runUI_frozen:
  "quitting m \<Longrightarrow> \<forall>x \<in> set xs. \<not> replacesSnapshot (jobID m) x \<Longrightarrow>
   quitting (runUI m xs) \<and> View e (runUI m xs) = View e m"
proof (induction xs arbitrary: m)
  case Nil
  then show ?case by (simp add: runUI_Nil)
next
  case (Cons x xs)
  let ?m' = "fst (Update m x)"
  have q': "quitting ?m'" using Cons.prems(1) by (rule Update_keeps_quitting)
  have j': "jobID ?m' = jobID m" by (rule Update_jobID)
  have v': "View e ?m' = View e m"
    using Cons.prems by (simp add: Update_frozen_step)
  have "quitting (runUI ?m' xs) \<and> View e (runUI ?m' xs) = View e ?m'"
    using Cons.prems(2) by (intro Cons.IH q') (simp add: j')
  with v' show ?case by (simp add: runUI_Cons)
qed

text \<open>
  C2, as the code has it. Once quitting is true it stays true, and the string produced
  by \<^verbatim>\<open>View\<close> is unchanged by every sequence of messages none of which is a snapshot
  message carrying the job id: animation ticks, key messages, snapshot messages without
  the aggregation or without the job, and other messages. A snapshot message that does
  carry the job id still replaces the current snapshot while quitting is true, and
  \<^verbatim>\<open>View\<close> then shows the new snapshot.
\<close>

theorem frozen_after_quitting:
  assumes "quitting m"
  shows "((\<forall>x \<in> set xs. \<not> replacesSnapshot (jobID m) x) \<longrightarrow>
            quitting (runUI m xs) \<and> View e (runUI m xs) = View e m)
     \<and> (findJob (jobID m) t = Some job \<longrightarrow>
            quitting (fst (Update m (MetricsMsg t)))
            \<and> View e (fst (Update m (MetricsMsg t))) = View e (m\<lparr>current := job\<rparr>))"
  using assms runUI_frozen [of m xs e]
  by (auto simp: Update_Metrics_found quitting_id)

lemma View_interrupted: "View plainEnv interrupted = newline @ newline"
  by (simp add: interrupted_eq initBatchJobMetricsUI_def View_def viewTail_def headerLine_def
      bodyRows_def zeroJobMetric_def BatchJobReplicate_def plainEnv_def plainTable_def)

theorem frozen_after_quitting_witness:
  "quitting interrupted
   \<and> quitting (runUI interrupted [SpinnerTickMsg, MetricsMsg tickNoAggregation, KeyMsg ''q''])
   \<and> View plainEnv (runUI interrupted [SpinnerTickMsg, MetricsMsg tickNoAggregation, KeyMsg ''q''])
       = newline @ newline
   \<and> findJob (jobID interrupted) (tickOf ''job1'' completeJob) = Some completeJob
   \<and> quitting (fst (Update interrupted (MetricsMsg (tickOf ''job1'' completeJob))))
   \<and> View plainEnv (fst (Update interrupted (MetricsMsg (tickOf ''job1'' completeJob))))
       = View plainEnv (interrupted\<lparr>current := completeJob\<rparr>)"
  using frozen_after_quitting [of interrupted
      "[SpinnerTickMsg, MetricsMsg tickNoAggregation, KeyMsg ''q'']" plainEnv
      "tickOf ''job1'' completeJob" completeJob]
  by (simp add: quitting_interrupted jobID_interrupted findJob_tickOf View_interrupted
      replacesSnapshot_def carriesJob_def findJob_tickNoAggregation)

text \<open>
  The claim as stated fails: after the interrupt (quitting is true, the header is empty),
  a snapshot message carrying the completed job changes the string produced by
  \<^verbatim>\<open>View\<close>, whose header becomes the success glyph.
\<close>

theorem snapshot_after_interrupt_counterexample:
  "quitting interrupted
   \<and> View plainEnv (fst (Update interrupted (MetricsMsg (tickOf ''job1'' completeJob))))
       \<noteq> View plainEnv interrupted"
proof -
  have u: "fst (Update interrupted (MetricsMsg (tickOf ''job1'' completeJob)))
             = interrupted\<lparr>current := completeJob, quitting := True\<rparr>"
    using Update_Metrics_found [of interrupted "tickOf ''job1'' completeJob" completeJob]
    by (simp add: jobID_interrupted findJob_tickOf completeJob_def)
  have h: "headerLine plainEnv (interrupted\<lparr>current := completeJob, quitting := True\<rparr>) = ''+++''"
    by (simp add: headerLine_def completeJob_def plainEnv_def)
  have "hd (View plainEnv (interrupted\<lparr>current := completeJob, quitting := True\<rparr>)) = CHR ''+''"
    by (simp add: View_def h)
  moreover have "hd (View plainEnv interrupted) = CHR 0x0A"
    by (simp add: View_interrupted newline_def)
  ultimately show ?thesis using quitting_interrupted u by auto
qed

lemma running_inv_init: "running_inv (initBatchJobMetricsUI j)"
  by (simp add: running_inv_def initBatchJobMetricsUI_def zeroJobMetric_def)

lemma running_inv_Update: "running_inv m \<Longrightarrow> running_inv (fst (Update m x))"
  by (cases x)
    (auto simp: running_inv_def Update_def Let_def split: option.splits prod.splits)

lemma running_inv_runUI: "running_inv m \<Longrightarrow> running_inv (runUI m xs)"
  by (induction xs arbitrary: m) (simp_all add: runUI_Nil runUI_Cons running_inv_Update)

text \<open>
  C4. In every state the display reaches from its initial state, the header that
  \<^verbatim>\<open>View\<close> writes is the spinner's frame while the display is running (quitting is
  false), the success triple glyph if the current snapshot is complete, and the failure
  triple glyph if it is failed (and not also complete: the data model excludes a snapshot
  with both flags). In interactive mode the feed callback sends every tick to the
  display, the terminal one included, and \<^verbatim>\<open>Update\<close> stores a terminal snapshot
  before it sets quitting, so the final frame carries the glyph of that snapshot.
\<close>

theorem header_glyph:
  assumes m: "m = runUI (initBatchJobMetricsUI j) xs"
    and m': "m' = fst (Update m (MetricsMsg t))"
  shows "(\<not> quitting m \<longrightarrow> View e m = spinner_View e (spinner m) @ viewTail e m)
    \<and> (Complete (current m) \<longrightarrow>
         View e m
           = render e (Style (spinner m)) (tickCell e @ tickCell e @ tickCell e) @ viewTail e m)
    \<and> (Failed (current m) \<and> \<not> Complete (current m) \<longrightarrow>
         View e m
           = render e (Style (spinner m)) (crossTickCell e @ crossTickCell e @ crossTickCell e)
               @ viewTail e m)
    \<and> callback False j t st = st\<lparr>sent := sent st @ [t]\<rparr>
    \<and> (findJob j t = Some job \<and> (Complete job \<or> Failed job) \<longrightarrow>
         current m' = job \<and> quitting m'
         \<and> View e m'
             = (if Complete job
                then render e (Style (spinner m')) (tickCell e @ tickCell e @ tickCell e)
                else render e (Style (spinner m'))
                       (crossTickCell e @ crossTickCell e @ crossTickCell e))
               @ viewTail e m')"
proof -
  have inv: "running_inv m"
    unfolding m by (rule running_inv_runUI) (rule running_inv_init)
  have jid: "jobID m = j"
    unfolding m by (simp add: runUI_jobID initBatchJobMetricsUI_def)
  have a: "\<not> quitting m \<longrightarrow> View e m = spinner_View e (spinner m) @ viewTail e m"
    by (simp add: View_def headerLine_def)
  have b: "Complete (current m) \<longrightarrow>
         View e m
           = render e (Style (spinner m)) (tickCell e @ tickCell e @ tickCell e) @ viewTail e m"
    using inv by (auto simp: View_def headerLine_def running_inv_def)
  have c: "Failed (current m) \<and> \<not> Complete (current m) \<longrightarrow>
         View e m
           = render e (Style (spinner m)) (crossTickCell e @ crossTickCell e @ crossTickCell e)
               @ viewTail e m"
    using inv by (auto simp: View_def headerLine_def running_inv_def)
  have d: "callback False j t st = st\<lparr>sent := sent st @ [t]\<rparr>"
    by (simp add: callback_def)
  have f: "findJob j t = Some job \<and> (Complete job \<or> Failed job) \<longrightarrow>
         current m' = job \<and> quitting m'
         \<and> View e m'
             = (if Complete job
                then render e (Style (spinner m')) (tickCell e @ tickCell e @ tickCell e)
                else render e (Style (spinner m'))
                       (crossTickCell e @ crossTickCell e @ crossTickCell e))
               @ viewTail e m'"
  proof
    assume h: "findJob j t = Some job \<and> (Complete job \<or> Failed job)"
    then have "m' = m\<lparr>current := job, quitting := True\<rparr>"
      unfolding m' using Update_Metrics_found [of m t job] by (simp add: jid)
    with h show "current m' = job \<and> quitting m'
         \<and> View e m'
             = (if Complete job
                then render e (Style (spinner m')) (tickCell e @ tickCell e @ tickCell e)
                else render e (Style (spinner m'))
                       (crossTickCell e @ crossTickCell e @ crossTickCell e))
               @ viewTail e m'"
      by (auto simp: View_def headerLine_def)
  qed
  from a b c d f show ?thesis by blast
qed

lemma afterRunning_eq: "afterRunning = (initBatchJobMetricsUI ''job1'')\<lparr>current := runningJob\<rparr>"
  using Update_Metrics_found [of "initBatchJobMetricsUI ''job1''" "tickOf ''job1'' runningJob" runningJob]
  by (simp add: afterRunning_def runUI_Cons runUI_Nil findJob_tickOf initBatchJobMetricsUI_def runningJob_def)

theorem header_glyph_witness:
  "\<not> quitting afterRunning
   \<and> View plainEnv afterRunning = ''...'' @ viewTail plainEnv afterRunning
   \<and> findJob ''job1'' (tickOf ''job1'' failedJob) = Some failedJob
   \<and> Failed failedJob \<and> \<not> Complete failedJob
   \<and> callback False ''job1'' (tickOf ''job1'' failedJob) initFeedState
       = initFeedState\<lparr>sent := [tickOf ''job1'' failedJob]\<rparr>
   \<and> current (fst (Update afterRunning (MetricsMsg (tickOf ''job1'' failedJob)))) = failedJob
   \<and> quitting (fst (Update afterRunning (MetricsMsg (tickOf ''job1'' failedJob))))
   \<and> View plainEnv (fst (Update afterRunning (MetricsMsg (tickOf ''job1'' failedJob))))
       = ''xxx'' @ viewTail plainEnv (fst (Update afterRunning (MetricsMsg (tickOf ''job1'' failedJob))))"
proof -
  have nq: "\<not> quitting afterRunning"
    by (simp add: afterRunning_eq initBatchJobMetricsUI_def)
  have sv: "spinner_View plainEnv (spinner afterRunning) = ''...''"
    by (simp add: afterRunning_eq initBatchJobMetricsUI_def spinner_View_def pointsFrames_def plainEnv_def)
  have fl: "Failed failedJob \<and> \<not> Complete failedJob"
    by (simp add: failedJob_def runningJob_def)
  have rn: "render plainEnv st s = s" for st s
    by (simp add: plainEnv_def)
  have ck: "crossTickCell plainEnv = ''x''"
    by (simp add: plainEnv_def)
  have st0: "initFeedState\<lparr>sent := sent initFeedState @ [tickOf ''job1'' failedJob]\<rparr>
     = initFeedState\<lparr>sent := [tickOf ''job1'' failedJob]\<rparr>"
    by (simp add: initFeedState_def)
  show ?thesis
    using header_glyph [of afterRunning "''job1''" "[MetricsMsg (tickOf ''job1'' runningJob)]"
        "fst (Update afterRunning (MetricsMsg (tickOf ''job1'' failedJob)))"
        "tickOf ''job1'' failedJob" plainEnv initFeedState failedJob]
    by (simp add: afterRunning_def [symmetric] nq sv fl rn ck st0 findJob_tickOf)
qed

section \<open>Properties of the view\<close>

text \<open>
  C9. For a snapshot whose job type is not the replication type, \<^verbatim>\<open>View\<close> collects
  no row: it returns the header glyph, the line break, the rendering of the empty table,
  and the closing line break once quitting is set. \<^verbatim>\<open>View\<close> has no error result.
\<close>

theorem unknown_type_header_only:
  "JobType (current m) \<noteq> BatchJobReplicate \<Longrightarrow>
   bodyRows e m = []
   \<and> View e m = headerLine e m @ newline @ tableRender e [] @ (if quitting m then newline else [])"
  by (simp add: View_def viewTail_def bodyRows_def)

theorem unknown_type_header_only_witness:
  "JobType (current ((initBatchJobMetricsUI ''job1'')\<lparr>current := otherJob\<rparr>)) \<noteq> BatchJobReplicate
   \<and> bodyRows plainEnv ((initBatchJobMetricsUI ''job1'')\<lparr>current := otherJob\<rparr>) = []
   \<and> View plainEnv ((initBatchJobMetricsUI ''job1'')\<lparr>current := otherJob\<rparr>) = ''...'' @ newline"
proof -
  have t: "JobType (current ((initBatchJobMetricsUI ''job1'')\<lparr>current := otherJob\<rparr>)) \<noteq> BatchJobReplicate"
    by (simp add: otherJob_def BatchJobReplicate_def)
  have h: "headerLine plainEnv ((initBatchJobMetricsUI ''job1'')\<lparr>current := otherJob\<rparr>) = ''...''"
    by (simp add: headerLine_def initBatchJobMetricsUI_def spinner_View_def pointsFrames_def plainEnv_def)
  have q: "\<not> quitting ((initBatchJobMetricsUI ''job1'')\<lparr>current := otherJob\<rparr>)"
    by (simp add: initBatchJobMetricsUI_def)
  have p: "tableRender plainEnv [] = []"
    by (simp add: plainEnv_def plainTable_def)
  show ?thesis
    using unknown_type_header_only [OF t, of plainEnv] t h q p by simp
qed

text \<open>
  The first four rows of a replication snapshot. The row labelled \<^verbatim>\<open>Versions: \<close>
  is given \<^verbatim>\<open>m.current.Replicate.Objects\<close>, the value of the row above it.
\<close>

lemma replicateRows_take4:
  "take 4 (replicateRows e j) =
     [[''JobType: '', render e (whiteStyle e) (JobType j)],
      [''Objects: '', render e (whiteStyle e) (sprintInt64 (Objects (Replicate j)))],
      [''Versions: '', render e (whiteStyle e) (sprintInt64 (Objects (Replicate j)))],
      [''FailedObjects: '', render e (whiteStyle e) (sprintInt64 (ObjectsFailed (Replicate j)))]]"
  by (simp add: replicateRows_def addLine_def Let_def)

text \<open>
  C8, as the code has it. For every replication snapshot the table starts with the rows
  of the job type, the object count, the versions and the failed objects, and the value
  of the versions row is the object count: the two rows always show the same number.
\<close>

theorem versions_row_shows_objects:
  "JobType (current m) = BatchJobReplicate \<Longrightarrow>
   take 4 (bodyRows e m) =
     [[''JobType: '', render e (whiteStyle e) (JobType (current m))],
      [''Objects: '', render e (whiteStyle e) (sprintInt64 (Objects (Replicate (current m))))],
      [''Versions: '', render e (whiteStyle e) (sprintInt64 (Objects (Replicate (current m))))],
      [''FailedObjects: '',
         render e (whiteStyle e) (sprintInt64 (ObjectsFailed (Replicate (current m))))]]"
  by (simp add: bodyRows_def replicateRows_take4)

lemma sprintInt64_7: "sprintInt64 7 = ''7''"
  by (simp add: sprintInt64_def showNat.simps)

lemma sprintInt64_2: "sprintInt64 2 = ''2''"
  by (simp add: sprintInt64_def showNat.simps)

theorem versions_row_shows_objects_witness:
  "JobType (current afterRunning) = BatchJobReplicate
   \<and> Objects (Replicate (current afterRunning)) = 7
   \<and> take 4 (bodyRows plainEnv afterRunning) =
     [[''JobType: '', ''replicate''], [''Objects: '', ''7''], [''Versions: '', ''7''],
      [''FailedObjects: '', ''2'']]"
proof -
  have t: "JobType (current afterRunning) = BatchJobReplicate"
    by (simp add: afterRunning_eq runningJob_def BatchJobReplicate_def)
  have c: "current afterRunning = runningJob"
    by (simp add: afterRunning_eq)
  have r: "render plainEnv st s = s" for st s
    by (simp add: plainEnv_def)
  show ?thesis
    using versions_row_shows_objects [OF t, of plainEnv] t
    by (simp add: c r runningJob_def sampleReplicate_def sprintInt64_7 sprintInt64_2)
qed

text \<open>
  The throughput rows. They are rows 4 and 5 of the table exactly when the last update
  is after the start, that is when the elapsed time is strictly positive; with 100 MiB
  moved in ten seconds the bytes per second are 10 MiB.
\<close>

lemma time_Sub_pos: "(0 < time_Sub t u) = (u < t)"
  by (auto simp: time_Sub_def Let_def maxDuration_def minDuration_def)

lemma length_replicateRows:
  "length (replicateRows e j) = (if StartTime j < LastUpdate j then 9 else 7)"
  by (simp add: replicateRows_def addLine_def Let_def time_Sub_pos)

lemma throughput_rows_present:
  "StartTime j < LastUpdate j \<Longrightarrow>
   replicateRows e j ! 4 =
     [''Throughput: '',
      render e (whiteStyle e) (IBytes e (uint64_of_float64 (bytesTransferredPerSec j)) @ ''/s'')]
   \<and> replicateRows e j ! 5 =
     [''IOPs: '', render e (whiteStyle e) (sprintf_2f e (objectsPerSec j) @ '' objs/s'')]"
  by (simp add: replicateRows_def addLine_def Let_def time_Sub_pos nth_append)

lemma throughput_rows_iff:
  "(''Throughput: '' \<in> set (map hd (replicateRows e j))) = (StartTime j < LastUpdate j)"
  "(''IOPs: '' \<in> set (map hd (replicateRows e j))) = (StartTime j < LastUpdate j)"
  by (auto simp: replicateRows_def addLine_def Let_def time_Sub_pos)

lemma throughput_example:
  "time_Sub (LastUpdate runningJob) (StartTime runningJob) = 10 * 1000000000
   \<and> BytesTransferred (Replicate runningJob) = 104857600
   \<and> uint64_of_float64 (bytesTransferredPerSec runningJob) = 10 * 2 ^ 20"
  by (simp add: runningJob_def sampleReplicate_def time_Sub_def maxDuration_def minDuration_def
      bytesTransferredPerSec_def float64_of_int64_def float64_of_Duration_def second_def
      uint64_of_float64_def)

text \<open>
  C5, at an input where the code leaves the claimed value. The product
  \<^verbatim>\<open>int64(time.Second) * BytesTransferred\<close> is taken in \<^verbatim>\<open>int64\<close> before the
  conversion to \<^verbatim>\<open>float64\<close>, and it wraps once the job has moved more than
  \<open>2 ^ 63 / 10 ^ 9\<close> bytes, about 8.6 GiB. For a replication job that has moved
  18446744074 bytes in 100 seconds (about 176 MiB per second) the wrapped product is
  290448384, and the throughput row shows the byte size of 0, where the bytes moved
  divided by the elapsed seconds are 184467440.
\<close>

theorem throughput_overflow:
  "JobType bigJob = BatchJobReplicate
   \<and> sint (BytesTransferred (Replicate bigJob)) = 18446744074
   \<and> time_Sub (LastUpdate bigJob) (StartTime bigJob) = 100 * 1000000000
   \<and> sint (second * BytesTransferred (Replicate bigJob)) = 290448384
   \<and> uint64_of_float64 (bytesTransferredPerSec bigJob) = 0
   \<and> uint64_of_float64
         (float64_of_int64 (BytesTransferred (Replicate bigJob)) / (100 :: rat)) = 184467440
   \<and> bodyRows e (m\<lparr>current := bigJob\<rparr>) ! 4
       = [''Throughput: '', render e (whiteStyle e) (IBytes e 0 @ ''/s'')]"
proof -
  have t: "JobType bigJob = BatchJobReplicate"
    by (simp add: bigJob_def BatchJobReplicate_def)
  have b: "sint (BytesTransferred (Replicate bigJob)) = 18446744074"
    by (simp add: bigJob_def)
  have d: "time_Sub (LastUpdate bigJob) (StartTime bigJob) = 100 * 1000000000"
    by (simp add: bigJob_def time_Sub_def maxDuration_def minDuration_def)
  have n: "sint (second * BytesTransferred (Replicate bigJob)) = 290448384"
    by (simp add: bigJob_def second_def)
  have u: "uint64_of_float64 (bytesTransferredPerSec bigJob) = 0"
    by (simp add: uint64_of_float64_def bytesTransferredPerSec_def float64_of_int64_def
        float64_of_Duration_def n d)
  have fl: "\<lfloor>(9223372037 :: rat) / 50\<rfloor> = 184467440"
    by (simp add: floor_eq_iff)
  have c: "uint64_of_float64
         (float64_of_int64 (BytesTransferred (Replicate bigJob)) / (100 :: rat)) = 184467440"
    by (simp add: uint64_of_float64_def float64_of_int64_def b fl)
  have lt: "StartTime bigJob < LastUpdate bigJob"
    by (simp add: bigJob_def)
  have r: "bodyRows e (m\<lparr>current := bigJob\<rparr>) ! 4
       = [''Throughput: '', render e (whiteStyle e) (IBytes e 0 @ ''/s'')]"
    using throughput_rows_present [OF lt, of e] by (simp add: bodyRows_def t u)
  from t b d n u c r show ?thesis by blast
qed

section \<open>Properties of the monitor's top level\<close>

text \<open>
  C6. When the describe call fails with the code \<^verbatim>\<open>XMinioAdminNoSuchJob\<close> the
  monitor does not abort: it goes on to the subscription, having printed the notice in
  interactive mode and nothing in structured mode. When it fails with any other error
  the monitor aborts with that error. When it succeeds the monitor goes on with no
  notice.
\<close>

theorem describe_not_found_is_not_fatal:
  "lookupJobStatus globalJSON (Some (ErrorResponse ''XMinioAdminNoSuchJob''))
     = Subscribes (if globalJSON then []
                   else [''Unable to find an active job, attempting to list from previously run jobs''])
   \<and> (ToErrorResponse_Code (Some x) \<noteq> ''XMinioAdminNoSuchJob'' \<longrightarrow>
        lookupJobStatus globalJSON (Some x) = Aborted (Fatal x [] ''Unable to lookup job status''))
   \<and> lookupJobStatus globalJSON None = Subscribes []"
  by (simp add: lookupJobStatus_def ToErrorResponse_Code_def Let_def)

theorem describe_not_found_is_not_fatal_witness:
  "lookupJobStatus False (Some (ErrorResponse ''XMinioAdminNoSuchJob''))
     = Subscribes [''Unable to find an active job, attempting to list from previously run jobs'']
   \<and> lookupJobStatus True (Some (ErrorResponse ''XMinioAdminNoSuchJob'')) = Subscribes []
   \<and> ToErrorResponse_Code (Some (ErrorResponse ''XMinioAdminInvalidArgument''))
        \<noteq> ''XMinioAdminNoSuchJob''
   \<and> lookupJobStatus False (Some (ErrorResponse ''XMinioAdminInvalidArgument''))
       = Aborted (Fatal (ErrorResponse ''XMinioAdminInvalidArgument'') [] ''Unable to lookup job status'')
   \<and> lookupJobStatus True (Some (OtherError ''connection refused''))
       = Aborted (Fatal (OtherError ''connection refused'') [] ''Unable to lookup job status'')"
  using describe_not_found_is_not_fatal [of False "ErrorResponse ''XMinioAdminInvalidArgument''"]
    describe_not_found_is_not_fatal [of True "OtherError ''connection refused''"]
  by (simp add: ToErrorResponse_Code_def)

text \<open>
  C7. An error returned by the metrics feed is raised as fatal, with the command's
  arguments and the message attached, if and only if it is not the cancellation error:
  \<^verbatim>\<open>context.Canceled\<close> itself, or an error that wraps it, raises nothing.
\<close>

theorem feed_error_fatal_unless_cancelled:
  "(feedReturned args e \<noteq> None) = (\<exists>x. e = Some x \<and> \<not> errors_Is x Canceled)
   \<and> (\<not> errors_Is x Canceled \<longrightarrow>
        feedReturned args (Some x) = Some (Fatal x args ''Unable to get current batch status''))
   \<and> feedReturned args (Some Canceled) = None
   \<and> feedReturned args (Some (Wrapped s Canceled)) = None"
  by (cases e) (auto simp: feedReturned_def)

theorem feed_error_fatal_unless_cancelled_witness:
  "\<not> errors_Is (OtherError ''connection reset'') Canceled
   \<and> feedReturned [''myminio/'', ''job1''] (Some (OtherError ''connection reset''))
       = Some (Fatal (OtherError ''connection reset'') [''myminio/'', ''job1'']
                 ''Unable to get current batch status'')
   \<and> feedReturned [''myminio/'', ''job1''] (Some (Wrapped ''Get'' Canceled)) = None
   \<and> feedReturned [''myminio/'', ''job1''] None = None"
  using feed_error_fatal_unless_cancelled
      [of "[''myminio/'', ''job1'']" None "OtherError ''connection reset''" "''Get''"]
  by (simp add: feedReturned_def)

text \<open>
  The structured callback on a tick that carries the job and on one that does not, and
  the records of a whole feed.
\<close>

lemma callback_json_found:
  "findJob jid t = Some job \<Longrightarrow>
   callback True jid t st =
     (if Complete job \<or> Failed job
      then st\<lparr>printed := printed st @ [t], cancelled := True\<rparr>
      else st\<lparr>printed := printed st @ [t]\<rparr>)"
  by (auto simp: callback_def findJob_def Let_def split: option.splits)

lemma callback_json_absent:
  "findJob jid t = None \<Longrightarrow> callback True jid t st = st\<lparr>cancelled := True\<rparr>"
  by (auto simp: callback_def findJob_def split: option.splits)

lemma metricsFeed_cancelled: "cancelled st \<Longrightarrow> metricsFeed out ts st = st"
  by (cases ts) simp_all

lemma recordsExpected_Nil: "recordsExpected jid [] = []"
  by (simp add: recordsExpected_def)

lemma recordsExpected_Cons:
  "recordsExpected jid (t # ts) =
     (case findJob jid t of
        None \<Rightarrow> []
      | Some job \<Rightarrow> if Complete job \<or> Failed job then [t] else t # recordsExpected jid ts)"
  by (auto simp: recordsExpected_def carriesJob_def stillRunning_def Let_def split: option.splits)

lemma metricsFeed_json:
  "\<not> cancelled st \<Longrightarrow>
   printed (metricsFeed (callback True jid) ticks st) = printed st @ recordsExpected jid ticks"
proof (induction ticks arbitrary: st)
  case Nil
  then show ?case by (simp add: recordsExpected_Nil)
next
  case (Cons t ts)
  show ?case
  proof (cases "findJob jid t")
    case None
    with Cons.prems show ?thesis
      by (simp add: callback_json_absent metricsFeed_cancelled recordsExpected_Cons)
  next
    case (Some job)
    show ?thesis
    proof (cases "Complete job \<or> Failed job")
      case True
      with Some Cons.prems show ?thesis
        by (simp add: callback_json_found metricsFeed_cancelled recordsExpected_Cons)
    next
      case False
      with Some Cons.prems Cons.IH [of "st\<lparr>printed := printed st @ [t]\<rparr>"] show ?thesis
        by (simp add: callback_json_found recordsExpected_Cons)
    qed
  qed
qed

lemma metricsFeed_json_cancelled:
  "\<not> cancelled st \<Longrightarrow>
   cancelled (metricsFeed (callback True jid) ticks st) = (\<not> list_all (stillRunning jid) ticks)"
proof (induction ticks arbitrary: st)
  case Nil
  then show ?case by simp
next
  case (Cons t ts)
  show ?case
  proof (cases "findJob jid t")
    case None
    with Cons.prems show ?thesis
      by (simp add: callback_json_absent metricsFeed_cancelled stillRunning_def)
  next
    case (Some job)
    show ?thesis
    proof (cases "Complete job \<or> Failed job")
      case True
      with Some Cons.prems show ?thesis
        by (auto simp: callback_json_found metricsFeed_cancelled stillRunning_def)
    next
      case False
      with Some Cons.prems Cons.IH [of "st\<lparr>printed := printed st @ [t]\<rparr>"] show ?thesis
        by (simp add: callback_json_found stillRunning_def)
    qed
  qed
qed

text \<open>
  C1. In structured mode, for every sequence of ticks that the feed delivers in order,
  the records printed are the ticks themselves, one per tick and in tick order, up to
  and including the first tick whose snapshot is complete or failed, and none after it;
  a tick without the aggregation or without the job id prints nothing and ends the
  emission. The cancellation is tripped exactly when some tick was not a tick of the
  still running job.
\<close>

theorem structured_records:
  "printed (metricsFeed (callback True jid) ticks initFeedState) = recordsExpected jid ticks
   \<and> cancelled (metricsFeed (callback True jid) ticks initFeedState)
       = (\<not> list_all (stillRunning jid) ticks)"
  using metricsFeed_json [of initFeedState jid ticks]
    metricsFeed_json_cancelled [of initFeedState jid ticks]
  by (simp add: initFeedState_def)

theorem structured_records_witness:
  "printed (metricsFeed (callback True ''job1'')
       [tickOf ''job1'' runningJob, tickOf ''job1'' completeJob, tickOf ''job1'' runningJob]
       initFeedState)
     = [tickOf ''job1'' runningJob, tickOf ''job1'' completeJob]
   \<and> printed (metricsFeed (callback True ''job1'')
       [tickOf ''job1'' runningJob, tickNoAggregation, tickOf ''job1'' runningJob]
       initFeedState)
     = [tickOf ''job1'' runningJob]
   \<and> printed (metricsFeed (callback True ''job1'')
       [tickOf ''job1'' runningJob, tickOf ''job2'' runningJob, tickOf ''job1'' runningJob]
       initFeedState)
     = [tickOf ''job1'' runningJob]"
proof -
  have f2: "findJob ''job1'' (tickOf ''job2'' runningJob) = None"
    by (simp add: findJob_def tickOf_def)
  have r: "\<not> Complete runningJob" "\<not> Failed runningJob" "Complete completeJob"
    by (simp_all add: completeJob_def runningJob_def)
  have e1: "recordsExpected ''job1''
        [tickOf ''job1'' runningJob, tickOf ''job1'' completeJob, tickOf ''job1'' runningJob]
      = [tickOf ''job1'' runningJob, tickOf ''job1'' completeJob]"
    by (simp add: recordsExpected_Cons findJob_tickOf r)
  have e2: "recordsExpected ''job1''
        [tickOf ''job1'' runningJob, tickNoAggregation, tickOf ''job1'' runningJob]
      = [tickOf ''job1'' runningJob]"
    by (simp add: recordsExpected_Cons findJob_tickOf findJob_tickNoAggregation r)
  have e3: "recordsExpected ''job1''
        [tickOf ''job1'' runningJob, tickOf ''job2'' runningJob, tickOf ''job1'' runningJob]
      = [tickOf ''job1'' runningJob]"
    by (simp add: recordsExpected_Cons findJob_tickOf f2 r)
  note p1 = structured_records [of "''job1''"
        "[tickOf ''job1'' runningJob, tickOf ''job1'' completeJob, tickOf ''job1'' runningJob]",
        THEN conjunct1]
  note p2 = structured_records [of "''job1''"
        "[tickOf ''job1'' runningJob, tickNoAggregation, tickOf ''job1'' runningJob]",
        THEN conjunct1]
  note p3 = structured_records [of "''job1''"
        "[tickOf ''job1'' runningJob, tickOf ''job2'' runningJob, tickOf ''job1'' runningJob]",
        THEN conjunct1]
  show ?thesis
    by (simp only: p1 p2 p3 e1 e2 e3 simp_thms)
qed

end
